theory Spec2Isabelle
  imports Main "HOL-Library.Sublist"
begin

section \<open>Errors\<close>

text \<open>
  The exceptions of \<^verbatim>\<open>clueweb22.py\<close> that the model distinguishes. An
  \<^verbatim>\<open>assert\<close> of a combiner carries the check that failed (in Python the
  traceback line tells them apart); \<^verbatim>\<open>ValueError\<close> is what
  \<^verbatim>\<open>ClueWeb22DocId.from_string\<close>, \<^verbatim>\<open>int\<close> and the docstore raise;
  \<^verbatim>\<open>TypeError\<close> comes from using \<^verbatim>\<open>NotImplemented\<close> as a string.
\<close>

datatype check =
  DocIdCheck | UrlCheck | LanguageCheck | InlinkDocIdCheck | OutlinkDocIdCheck
  | NameEndsWithExtension | CompressionExtensionIsNone | CompressionExtensionIsNotNone

datatype error = ValueError | TypeError | AssertionError check

section \<open>Strings\<close>

text \<open>
  A Python \<^verbatim>\<open>str\<close> is modelled as a \<^typ>\<open>string\<close>; its characters are the code
  points below 256. \<^verbatim>\<open>s.split(c)\<close> for a one-character separator:
\<close>

fun split_on :: "char \<Rightarrow> string \<Rightarrow> string list" where
  "split_on c [] = [[]]"
| "split_on c (x # xs) =
     (if x = c then [] # split_on c xs
      else (case split_on c xs of
              [] \<Rightarrow> [[x]]
            | p # ps \<Rightarrow> (x # p) # ps))"

section \<open>Base records\<close>

type_synonym bytes = "nat list"
type_synonym datetime = string
type_synonym UUID = string

record Txt =
  txt_doc_id :: string
  txt_url :: string
  txt_url_hash :: string
  txt_language :: string
  txt_text :: string

datatype AnnotationType = NONE | PRIMARY | HEADING | TITLE | PARAGRAPH | TABLE | LIST

record Html =
  html_doc_id :: string
  html_url :: string
  html_url_hash :: string
  html_language :: string
  html_date :: datetime
  html_record_id :: UUID
  html_payload_digest :: string
  html_html :: bytes
  html_vdom_nodes :: "(AnnotationType \<times> int list) list"

record Anchor =
  anchor_url :: string
  anchor_url_hash :: string
  anchor_text :: string
  anchor_language :: string

record Link =
  link_doc_id :: string
  link_url :: string
  link_url_hash :: string
  link_anchors :: "Anchor list"

record Vdom =
  vdom_vdom :: bytes

section \<open>Documents\<close>

record ClueWeb22ADoc =
  a_doc_id :: string
  a_url :: string
  a_url_hash :: string
  a_language :: string
  a_text :: string
  a_date :: datetime
  a_html :: bytes
  a_record_id :: UUID
  a_payload_digest :: string
  a_vdom_nodes :: "(AnnotationType \<times> int list) list"
  a_vdom :: bytes
  a_inlink_anchors :: "Anchor list"
  a_outlink_anchors :: "Anchor list"

record ClueWeb22BDoc =
  b_doc_id :: string
  b_url :: string
  b_url_hash :: string
  b_language :: string
  b_text :: string
  b_date :: datetime
  b_html :: bytes
  b_record_id :: UUID
  b_payload_digest :: string
  b_vdom_nodes :: "(AnnotationType \<times> int list) list"
  b_vdom :: bytes
  b_inlink_anchors :: "Anchor list"
  b_outlink_anchors :: "Anchor list"

section \<open>Combiners\<close>

text \<open>
  The assertion of \<^verbatim>\<open>_combine_a_docs\<close> and \<^verbatim>\<open>_combine_b_docs\<close> on the URLs:
  \<^verbatim>\<open>"," in html.url and html.url.split(",")[0] == txt.url\<close>, reached only when the
  two URLs differ.
\<close>

definition url_assertion :: "Txt \<Rightarrow> Html \<Rightarrow> bool" where
  "url_assertion txt html =
     (CHR '','' \<in> set (html_url html) \<and>
      (case split_on CHR '','' (html_url html) of
         [] \<Rightarrow> False
       | p # _ \<Rightarrow> p = txt_url txt))"

text \<open>
  The assertions of one pass through the loop body, in the order of the source. The result
  is the first assertion that fails. Logging (\<^verbatim>\<open>_logger.debug\<close>,
  \<^verbatim>\<open>_logger.warn\<close>) changes neither the control flow nor the document and is left out.
\<close>

definition combine_checks ::
  "Txt \<Rightarrow> Html \<Rightarrow> Link option \<Rightarrow> Link option \<Rightarrow> check option" where
  "combine_checks txt html inlink outlink =
     (if txt_doc_id txt \<noteq> html_doc_id html then Some DocIdCheck
      else if txt_url txt \<noteq> html_url html \<and> \<not> url_assertion txt html then Some UrlCheck
      else if \<not> (txt_language txt = ''other'' \<or> txt_language txt = html_language html)
        then Some LanguageCheck
      else if (case inlink of None \<Rightarrow> False | Some l \<Rightarrow> link_doc_id l \<noteq> html_doc_id html)
        then Some InlinkDocIdCheck
      else if (case outlink of None \<Rightarrow> False | Some l \<Rightarrow> link_doc_id l \<noteq> html_doc_id html)
        then Some OutlinkDocIdCheck
      else None)"

text \<open>The loop body of \<^verbatim>\<open>_combine_a_docs\<close> on one tuple of the zipped iterators.\<close>

definition combine_a_doc ::
  "Txt \<Rightarrow> Html \<Rightarrow> Link option \<Rightarrow> Link option \<Rightarrow> Vdom \<Rightarrow> error + ClueWeb22ADoc" where
  "combine_a_doc txt html inlink outlink vdom =
     (case combine_checks txt html inlink outlink of
        Some c \<Rightarrow> Inl (AssertionError c)
      | None \<Rightarrow> Inr \<lparr>
          a_doc_id = html_doc_id html,
          a_url = html_url html,
          a_url_hash = html_url_hash html,
          a_language = html_language html,
          a_text = txt_text txt,
          a_date = html_date html,
          a_html = html_html html,
          a_record_id = html_record_id html,
          a_payload_digest = html_payload_digest html,
          a_vdom_nodes = html_vdom_nodes html,
          a_vdom = vdom_vdom vdom,
          a_inlink_anchors = (case inlink of Some l \<Rightarrow> link_anchors l | None \<Rightarrow> []),
          a_outlink_anchors = (case outlink of Some l \<Rightarrow> link_anchors l | None \<Rightarrow> [])
        \<rparr>)"

text \<open>The loop body of \<^verbatim>\<open>_combine_b_docs\<close> on one tuple of the zipped iterators.\<close>

definition combine_b_doc ::
  "Txt \<Rightarrow> Html \<Rightarrow> Link option \<Rightarrow> Link option \<Rightarrow> Vdom \<Rightarrow> error + ClueWeb22BDoc" where
  "combine_b_doc txt html inlink outlink vdom =
     (case combine_checks txt html inlink outlink of
        Some c \<Rightarrow> Inl (AssertionError c)
      | None \<Rightarrow> Inr \<lparr>
          b_doc_id = html_doc_id html,
          b_url = html_url html,
          b_url_hash = html_url_hash html,
          b_language = html_language html,
          b_text = txt_text txt,
          b_date = html_date html,
          b_html = html_html html,
          b_record_id = html_record_id html,
          b_payload_digest = html_payload_digest html,
          b_vdom_nodes = html_vdom_nodes html,
          b_vdom = vdom_vdom vdom,
          b_inlink_anchors = (case inlink of Some l \<Rightarrow> link_anchors l | None \<Rightarrow> []),
          b_outlink_anchors = (case outlink of Some l \<Rightarrow> link_anchors l | None \<Rightarrow> [])
        \<rparr>)"

text \<open>
  A combiner is a generator over \<^verbatim>\<open>zip(*record_iterators)\<close>: it yields one document
  per tuple until an assertion fails or the shortest iterator ends. The result is the
  documents yielded and the error that ended the iteration, if any.
\<close>

type_synonym record_tuple = "Txt \<times> Html \<times> Link option \<times> Link option \<times> Vdom"

fun run_combiner ::
  "(record_tuple \<Rightarrow> error + 'd) \<Rightarrow> record_tuple list \<Rightarrow> 'd list \<times> error option" where
  "run_combiner f [] = ([], None)"
| "run_combiner f (t # ts) =
     (case f t of
        Inl e \<Rightarrow> ([], Some e)
      | Inr d \<Rightarrow> (case run_combiner f ts of (ds, e) \<Rightarrow> (d # ds, e)))"

definition zipped ::
  "Txt list \<Rightarrow> Html list \<Rightarrow> Link option list \<Rightarrow> Link option list \<Rightarrow> Vdom list
   \<Rightarrow> record_tuple list" where
  "zipped txts htmls inlinks outlinks vdoms =
     zip txts (zip htmls (zip inlinks (zip outlinks vdoms)))"

definition combine_a_docs ::
  "Txt list \<Rightarrow> Html list \<Rightarrow> Link option list \<Rightarrow> Link option list \<Rightarrow> Vdom list
   \<Rightarrow> ClueWeb22ADoc list \<times> error option" where
  "combine_a_docs txts htmls inlinks outlinks vdoms =
     run_combiner (\<lambda>(txt, html, inlink, outlink, vdom). combine_a_doc txt html inlink outlink vdom)
       (zipped txts htmls inlinks outlinks vdoms)"

definition combine_b_docs ::
  "Txt list \<Rightarrow> Html list \<Rightarrow> Link option list \<Rightarrow> Link option list \<Rightarrow> Vdom list
   \<Rightarrow> ClueWeb22BDoc list \<times> error option" where
  "combine_b_docs txts htmls inlinks outlinks vdoms =
     run_combiner (\<lambda>(txt, html, inlink, outlink, vdom). combine_b_doc txt html inlink outlink vdom)
       (zipped txts htmls inlinks outlinks vdoms)"

section \<open>Formats, languages and subsets\<close>

datatype ClueWeb22Compression = GZIP | ZIP

text \<open>
  A field of \<^verbatim>\<open>_FormatInfo\<close> is either a value or Python's \<^verbatim>\<open>NotImplemented\<close>
  (the fields of the reserved JPG format).
\<close>

datatype 'a setting = NotImplemented | Value 'a

datatype ClueWeb22Format = HTML | INLINK | OUTLINK | TXT | JPG | VDOM

fun format_id :: "ClueWeb22Format \<Rightarrow> string" where
  "format_id HTML = ''html''"
| "format_id INLINK = ''inlink''"
| "format_id OUTLINK = ''outlink''"
| "format_id TXT = ''txt''"
| "format_id JPG = ''jpg''"
| "format_id VDOM = ''vdom''"

fun extension :: "ClueWeb22Format \<Rightarrow> string setting" where
  "extension HTML = Value ''.warc.gz''"
| "extension INLINK = Value ''.json.gz''"
| "extension OUTLINK = Value ''.json.gz''"
| "extension TXT = Value ''.json.gz''"
| "extension JPG = NotImplemented"
| "extension VDOM = Value ''.zip''"

fun offset_extension :: "ClueWeb22Format \<Rightarrow> string option setting" where
  "offset_extension HTML = Value (Some ''.warc.offset'')"
| "offset_extension INLINK = Value (Some ''.offset'')"
| "offset_extension OUTLINK = Value (Some ''.offset'')"
| "offset_extension TXT = Value (Some ''.offset'')"
| "offset_extension JPG = NotImplemented"
| "offset_extension VDOM = Value None"

fun compression :: "ClueWeb22Format \<Rightarrow> ClueWeb22Compression setting" where
  "compression HTML = Value GZIP"
| "compression INLINK = Value GZIP"
| "compression OUTLINK = Value GZIP"
| "compression TXT = Value GZIP"
| "compression JPG = NotImplemented"
| "compression VDOM = Value ZIP"

fun compression_extension :: "ClueWeb22Format \<Rightarrow> string option setting" where
  "compression_extension HTML = Value None"
| "compression_extension INLINK = Value None"
| "compression_extension OUTLINK = Value None"
| "compression_extension TXT = Value None"
| "compression_extension JPG = NotImplemented"
| "compression_extension VDOM = Value (Some ''.bin'')"

datatype ClueWeb22Language = DE | EN | ES | FR | IT | JA | NL | PO | PT | ZH | OTHER

fun language_id :: "ClueWeb22Language \<Rightarrow> string" where
  "language_id DE = ''de''"
| "language_id EN = ''en''"
| "language_id ES = ''es''"
| "language_id FR = ''fr''"
| "language_id IT = ''it''"
| "language_id JA = ''ja''"
| "language_id NL = ''nl''"
| "language_id PO = ''po''"
| "language_id PT = ''pt''"
| "language_id ZH = ''zh_chs''"
| "language_id OTHER = ''other''"

text \<open>The members of the enum \<^verbatim>\<open>ClueWeb22Language\<close>, in definition order.\<close>

definition languages :: "ClueWeb22Language list" where
  "languages = [DE, EN, ES, FR, IT, JA, NL, PO, PT, ZH, OTHER]"

datatype ClueWeb22Subset = L | A | B

fun subset_id :: "ClueWeb22Subset \<Rightarrow> string" where
  "subset_id L = ''L''"
| "subset_id A = ''A''"
| "subset_id B = ''B''"

fun formats :: "ClueWeb22Subset \<Rightarrow> ClueWeb22Format list" where
  "formats L = [TXT]"
| "formats A = [TXT, HTML, INLINK, OUTLINK, VDOM]"
| "formats B = [TXT, HTML, INLINK, OUTLINK, VDOM]"

fun extends :: "ClueWeb22Subset \<Rightarrow> string option" where
  "extends L = None"
| "extends A = Some ''L''"
| "extends B = Some ''A''"

text \<open>The members of the enum \<^verbatim>\<open>ClueWeb22Subset\<close>, in definition order.\<close>

definition subsets :: "ClueWeb22Subset list" where
  "subsets = [L, A, B]"

fun subset_rank :: "ClueWeb22Subset \<Rightarrow> nat" where
  "subset_rank L = 0"
| "subset_rank A = 1"
| "subset_rank B = 2"

text \<open>
  \<^verbatim>\<open>ClueWeb22Subset.subset_views\<close>: the subset and, through \<^verbatim>\<open>extends\<close>, the views
  of the subset whose id it names. \<^verbatim>\<open>next\<close> on an id that no subset has would raise
  \<^verbatim>\<open>StopIteration\<close>; every \<^verbatim>\<open>extends\<close> of the enum names a member.
\<close>

function subset_views :: "ClueWeb22Subset \<Rightarrow> ClueWeb22Subset set" where
  "subset_views s =
     (case extends s of
        None \<Rightarrow> {s}
      | Some e \<Rightarrow>
          (case find (\<lambda>s'. subset_id s' = e) subsets of
             None \<Rightarrow> {s}
           | Some s' \<Rightarrow> {s} \<union> subset_views s'))"
  by pat_completeness auto
termination
proof (relation "measure subset_rank")
  show "wf (measure subset_rank)" by simp
next
  fix s e s'
  assume "extends s = Some e" and "find (\<lambda>s'. subset_id s' = e) subsets = Some s'"
  then show "(s', s) \<in> measure subset_rank"
    by (cases s) (auto simp: subsets_def split: if_splits)
qed

declare subset_views.simps [simp del]

text \<open>
  \<^verbatim>\<open>ClueWeb22Subset.diff_formats\<close>: the formats of the subset minus those of every
  other subset view. The loop subtracts one view's formats after the other; the result
  does not depend on their order.
\<close>

definition diff_formats :: "ClueWeb22Subset \<Rightarrow> ClueWeb22Format set" where
  "diff_formats s = set (formats s) - (\<Union>v \<in> subset_views s - {s}. set (formats v))"

section \<open>Record counts\<close>

record ClueWeb22FileId =
  file_language :: string
  file_stream :: int
  file_subdirectory :: int
  file_file :: int

type_synonym counts = "(ClueWeb22FileId \<times> int) list"

text \<open>
  \<^verbatim>\<open>ClueWeb22Docs._record_counts(format_type)\<close> reads the CSV catalogs of a format from
  disk. The model takes what it yields as a parameter \<open>catalog\<close>, a function from the format
  to the list of \<open>(file id, count)\<close> pairs (language filter applied).

  \<^verbatim>\<open>next(iter(diff_formats))\<close> takes the first element of a Python set in its
  iteration order, which the language leaves open. The model takes it as a parameter
  \<open>next_iter\<close>, with \<open>None\<close> for \<^verbatim>\<open>StopIteration\<close>; \<open>set_next\<close> says what every
  Python set guarantees.
\<close>

definition set_next :: "('a set \<Rightarrow> 'a option) \<Rightarrow> bool" where
  "set_next next_iter =
     (\<forall>S. (S = {} \<longrightarrow> next_iter S = None) \<and> (S \<noteq> {} \<longrightarrow> (\<exists>x \<in> S. next_iter S = Some x)))"

definition diff_format_record_counts ::
  "(ClueWeb22Format set \<Rightarrow> ClueWeb22Format option) \<Rightarrow> (ClueWeb22Format \<Rightarrow> counts)
   \<Rightarrow> ClueWeb22Subset \<Rightarrow> counts" where
  "diff_format_record_counts next_iter catalog s =
     (case next_iter (diff_formats s) of
        None \<Rightarrow> catalog HTML
      | Some diff_format_type \<Rightarrow> catalog diff_format_type)"

text \<open>
  The nested loop of \<^verbatim>\<open>ClueWeb22Docs.record_counts\<close>. \<open>counts\<close> is one iterator shared
  by all passes of the outer loop: the inner loop consumes it up to and including the first
  entry with the file id looked for, or to its end when there is none.
\<close>

fun record_counts_loop :: "counts \<Rightarrow> counts \<Rightarrow> counts" where
  "record_counts_loop [] counts = []"
| "record_counts_loop ((diff_file_id, diff_count) # diffs) counts =
     (case dropWhile (\<lambda>(file_id, count). file_id \<noteq> diff_file_id) counts of
        [] \<Rightarrow> record_counts_loop diffs []
      | (file_id, count) # rest \<Rightarrow> (file_id, diff_count) # record_counts_loop diffs rest)"

definition record_counts ::
  "(ClueWeb22Format set \<Rightarrow> ClueWeb22Format option) \<Rightarrow> (ClueWeb22Format \<Rightarrow> counts)
   \<Rightarrow> ClueWeb22Subset \<Rightarrow> ClueWeb22Format \<Rightarrow> counts" where
  "record_counts next_iter catalog s format_type =
     record_counts_loop (diff_format_record_counts next_iter catalog s) (catalog format_type)"

definition docs_count ::
  "(ClueWeb22Format set \<Rightarrow> ClueWeb22Format option) \<Rightarrow> (ClueWeb22Format \<Rightarrow> counts)
   \<Rightarrow> ClueWeb22Subset \<Rightarrow> int" where
  "docs_count next_iter catalog s =
     sum_list (map snd (diff_format_record_counts next_iter catalog s))"

text \<open>
  One iteration order for sets of formats, to run the model on: the first member in the
  definition order of the enum.
\<close>

definition first_format :: "ClueWeb22Format set \<Rightarrow> ClueWeb22Format option" where
  "first_format S = find (\<lambda>f. f \<in> S) [HTML, INLINK, OUTLINK, TXT, JPG, VDOM]"

section \<open>Slicing the iterator\<close>

text \<open>
  \<^verbatim>\<open>in_slice\<close> and \<^verbatim>\<open>overlaps_slice\<close>, the local functions of
  \<^verbatim>\<open>_ClueWeb22Iterator._file_iterator_slice\<close>. \<open>start\<close>, \<open>stop\<close> and \<open>step\<close>
  come from \<^verbatim>\<open>slice.indices\<close>, which never returns a zero step; Python's \<^verbatim>\<open>%\<close>
  and \<open>mod\<close> on \<^typ>\<open>int\<close> agree (the sign of the divisor).
\<close>

definition in_slice :: "int \<Rightarrow> int \<Rightarrow> int \<Rightarrow> int \<Rightarrow> bool" where
  "in_slice index start stop step =
     (if \<not> (start \<le> index \<and> index < stop) then False
      else (index - start) mod step = 0)"

definition overlaps_slice :: "int \<Rightarrow> int \<Rightarrow> int \<Rightarrow> int \<Rightarrow> bool" where
  "overlaps_slice index_start index_end start stop =
     (max index_start start < min index_end stop)"

text \<open>
  What the generator of \<^verbatim>\<open>_file_iterator_slice\<close> does with one catalog entry: it leaves
  the file closed, or opens it and reads the records at some local indices (none when the
  list is empty: the file was opened and closed again), or opens it and raises.
\<close>

datatype 'p access = NotOpened 'p | Opened 'p "int list" | Raised 'p error

text \<open>
  The generator of \<^verbatim>\<open>_file_iterator_slice\<close>, as the list of its accesses, one per entry
  of \<^verbatim>\<open>self._file_paths(format_type)\<close> until an exception ends it. \<open>index_offset\<close> is the
  variable of that name. \<open>namelist_len file_path\<close> is the number of members of the ZIP
  archive at the path. The set \<^verbatim>\<open>file_indices\<close> is kept as the ascending list of its
  members. Every file of the catalog is taken to exist.

  In the GZIP branch the \<^verbatim>\<open>continue\<close> for an empty \<^verbatim>\<open>file_indices\<close> sits inside
  \<^verbatim>\<open>with file_path.open("rb")\<close> and before \<^verbatim>\<open>index_offset += count\<close>: the file has
  been opened, and the offset stays where it was.
\<close>

fun file_iterator_slice ::
  "ClueWeb22Format \<Rightarrow> ('p \<Rightarrow> int) \<Rightarrow> int \<Rightarrow> int \<Rightarrow> int \<Rightarrow> int \<Rightarrow> ('p \<times> int) list
   \<Rightarrow> 'p access list" where
  "file_iterator_slice format_type namelist_len start stop step index_offset [] = []"
| "file_iterator_slice format_type namelist_len start stop step index_offset
     ((file_path, count) # file_paths) =
     (if \<not> overlaps_slice index_offset (index_offset + count) start stop
      then NotOpened file_path
             # file_iterator_slice format_type namelist_len start stop step
                 (index_offset + count) file_paths
      else
        (case compression format_type of
           Value GZIP \<Rightarrow>
             (if compression_extension format_type \<noteq> Value None
              then [Raised file_path (AssertionError CompressionExtensionIsNone)]
              else
                (let file_indices =
                       filter (\<lambda>file_index. in_slice (index_offset + file_index) start stop step)
                         [0..count - 1]
                 in if file_indices = []
                    then Opened file_path []
                           # file_iterator_slice format_type namelist_len start stop step
                               index_offset file_paths
                    else Opened file_path file_indices
                           # file_iterator_slice format_type namelist_len start stop step
                               (index_offset + count) file_paths))
         | Value ZIP \<Rightarrow>
             (if compression_extension format_type = Value None
              then [Raised file_path (AssertionError CompressionExtensionIsNotNone)]
              else Opened file_path
                     (filter (\<lambda>index. in_slice (index_offset + index) start stop step)
                        [0..namelist_len file_path - 1])
                     # file_iterator_slice format_type namelist_len start stop step
                         (index_offset + count) file_paths)
         | NotImplemented \<Rightarrow> [Raised file_path ValueError]))"

text \<open>
  Modelled from the spec: \<^verbatim>\<open>OffsetIOWrapper.from_offsets\<close> of the module
  \<^verbatim>\<open>ir_datasets_clueweb22.io\<close>, which is not among the sources. Section 4.4 of the
  specification: reading from the adapter yields, in sorted order of the index set \<open>I\<close>,
  the byte ranges of the records, and the gzip decoder yields exactly those records in that
  order. A shard is modelled as the list of its records; an index outside the shard, of
  which the specification says nothing, yields no record.
\<close>

definition offset_io_records :: "'r list \<Rightarrow> int list \<Rightarrow> 'r list" where
  "offset_io_records recs indices =
     map (\<lambda>i. recs ! nat i)
       (filter (\<lambda>i. 0 \<le> i \<and> i < int (length recs)) (sort (remdups indices)))"

text \<open>
  \<^verbatim>\<open>read_records\<close> of \<^verbatim>\<open>_ClueWeb22Iterable.__iter__\<close> over the files that the
  generator yields: the records of all files read, in order. \<open>contents file_path\<close> is the
  list of records of the shard (of the members of a ZIP archive).
\<close>

definition read_records :: "('p \<Rightarrow> 'r list) \<Rightarrow> 'p access list \<Rightarrow> 'r list" where
  "read_records contents accesses =
     concat (map (\<lambda>a. case a of Opened file_path indices \<Rightarrow>
                                    offset_io_records (contents file_path) indices
                                | _ \<Rightarrow> []) accesses)"

text \<open>
  The full iteration, \<^verbatim>\<open>_file_iterator_all\<close> in its GZIP branch: every file of the
  catalog is opened and read from its first offset to its end.
\<close>

definition all_records :: "('p \<Rightarrow> 'r list) \<Rightarrow> ('p \<times> int) list \<Rightarrow> 'r list" where
  "all_records contents file_paths = concat (map (\<lambda>(file_path, count). contents file_path) file_paths)"

record ClueWeb22LDoc =
  l_doc_id :: string
  l_url :: string
  l_url_hash :: string
  l_language :: string
  l_text :: string

text \<open>\<^verbatim>\<open>_combine_l_docs\<close>: one document per TXT record, no assertion.\<close>

definition combine_l_docs :: "Txt list \<Rightarrow> ClueWeb22LDoc list" where
  "combine_l_docs txts =
     map (\<lambda>txt. \<lparr>l_doc_id = txt_doc_id txt, l_url = txt_url txt, l_url_hash = txt_url_hash txt,
                 l_language = txt_language txt, l_text = txt_text txt\<rparr>) txts"

text \<open>
  The documents of the L view (format TXT only): of the whole iteration, and of
  \<^verbatim>\<open>__getitem__\<close> with a slice whose \<^verbatim>\<open>indices\<close> are \<open>(start, stop, step)\<close>.
\<close>

definition docs_iter_l :: "('p \<Rightarrow> Txt list) \<Rightarrow> ('p \<times> int) list \<Rightarrow> ClueWeb22LDoc list" where
  "docs_iter_l contents file_paths = combine_l_docs (all_records contents file_paths)"

definition getitem_slice_l ::
  "('p \<Rightarrow> Txt list) \<Rightarrow> ('p \<times> int) list \<Rightarrow> int \<Rightarrow> int \<Rightarrow> int \<Rightarrow> ClueWeb22LDoc list" where
  "getitem_slice_l contents file_paths start stop step =
     combine_l_docs
       (read_records contents
          (file_iterator_slice TXT (\<lambda>file_path. 0) start stop step 0 file_paths))"

text \<open>
  What claim C1 compares the slice with, in the claim's words (not in the source): every
  \<open>step\<close>-th element of a list among the positions in \<open>[start, stop)\<close>, counted from
  \<open>start\<close>.
\<close>

definition every_step_th :: "'a list \<Rightarrow> int \<Rightarrow> int \<Rightarrow> int \<Rightarrow> 'a list" where
  "every_step_th xs start stop step =
     map (\<lambda>i. xs ! nat i)
       (filter (\<lambda>i. start \<le> i \<and> i < stop \<and> (i - start) mod step = 0) [0..int (length xs) - 1])"

text \<open>
  What claim C2 says is opened, in the claim's words (not in the source): the set of
  selected local indices of a shard of \<open>count\<close> records that starts at the global index
  \<open>running\<close>.
\<close>

definition selected_local_indices :: "int \<Rightarrow> int \<Rightarrow> int \<Rightarrow> int \<Rightarrow> int \<Rightarrow> int set" where
  "selected_local_indices running count start stop step =
     {i. 0 \<le> i \<and> i < count \<and> start \<le> running + i \<and> running + i < stop
         \<and> (running + i - start) mod step = 0}"

section \<open>Integers as text\<close>

text \<open>
  \<^verbatim>\<open>int(s)\<close> on a string of code points below 256: white space is stripped at both
  ends, one sign may follow, then come decimal digits, where single underscores may stand
  between two digits. Below 256 the characters that Python takes for white space are 9 to
  13, 28 to 32, 133 and 160, and the only decimal digits are \<open>0\<close> to \<open>9\<close>. The limit on the
  number of digits that newer interpreters set (\<^verbatim>\<open>sys.set_int_max_str_digits\<close>) is
  not modelled.
\<close>

definition py_isspace :: "char \<Rightarrow> bool" where
  "py_isspace c =
     (let n = (of_char c :: nat)
      in (9 \<le> n \<and> n \<le> 13) \<or> (28 \<le> n \<and> n \<le> 32) \<or> n = 133 \<or> n = 160)"

definition py_strip :: "string \<Rightarrow> string" where
  "py_strip s = rev (dropWhile py_isspace (rev (dropWhile py_isspace s)))"

definition digit_chars :: string where
  "digit_chars = ''0123456789''"

definition is_digit :: "char \<Rightarrow> bool" where
  "is_digit c = (c \<in> set digit_chars)"

definition digit_value :: "char \<Rightarrow> int" where
  "digit_value c = int (length (takeWhile (\<lambda>d. d \<noteq> c) digit_chars))"

definition digit_char :: "nat \<Rightarrow> char" where
  "digit_char n = digit_chars ! n"

text \<open>
  The digits of \<^verbatim>\<open>int\<close>: \<open>acc\<close> is the value read so far, \<open>prev\<close> says whether the
  character before was a digit (an underscore needs one before and one after it).
\<close>

fun parse_digits :: "int \<Rightarrow> bool \<Rightarrow> string \<Rightarrow> int option" where
  "parse_digits acc prev [] = (if prev then Some acc else None)"
| "parse_digits acc prev (c # cs) =
     (if is_digit c then parse_digits (10 * acc + digit_value c) True cs
      else if c = CHR ''_'' \<and> prev then parse_digits acc False cs
      else None)"

definition py_int :: "string \<Rightarrow> error + int" where
  "py_int s =
     (case py_strip s of
        [] \<Rightarrow> Inl ValueError
      | c # cs \<Rightarrow>
          if c = CHR ''-'' then
            (case parse_digits 0 False cs of None \<Rightarrow> Inl ValueError | Some n \<Rightarrow> Inr (- n))
          else if c = CHR ''+'' then
            (case parse_digits 0 False cs of None \<Rightarrow> Inl ValueError | Some n \<Rightarrow> Inr n)
          else
            (case parse_digits 0 False (c # cs) of None \<Rightarrow> Inl ValueError | Some n \<Rightarrow> Inr n))"

text \<open>\<^verbatim>\<open>str(n)\<close> for an integer, and the format \<^verbatim>\<open>f"{n:0>w}"\<close>: \<^verbatim>\<open>str(n)\<close> filled
  with \<open>0\<close> on the left up to the width \<open>w\<close>.\<close>

fun str_nat :: "nat \<Rightarrow> string" where
  "str_nat n = (if n < 10 then [digit_char n] else str_nat (n div 10) @ [digit_char (n mod 10)])"

declare str_nat.simps [simp del]

definition py_str :: "int \<Rightarrow> string" where
  "py_str n = (if n < 0 then CHR ''-'' # str_nat (nat (- n)) else str_nat (nat n))"

definition format_int :: "nat \<Rightarrow> int \<Rightarrow> string" where
  "format_int w n = replicate (w - length (py_str n)) CHR ''0'' @ py_str n"

text \<open>\<^verbatim>\<open>sep.join(parts)\<close>.\<close>

fun py_join :: "string \<Rightarrow> string list \<Rightarrow> string" where
  "py_join sep [] = []"
| "py_join sep [p] = p"
| "py_join sep (p # q # ps) = p @ sep @ py_join sep (q # ps)"

section \<open>Document ids\<close>

record ClueWeb22DocId =
  doc_language :: string
  doc_stream :: int
  doc_subdirectory :: int
  doc_file :: int
  doc_doc :: int

definition MAX_SUBDIRECTORIES_PER_STREAM :: int where
  "MAX_SUBDIRECTORIES_PER_STREAM = 80"

definition MAX_FILES_PER_SUBDIRECTORY :: int where
  "MAX_FILES_PER_SUBDIRECTORY = 100"

text \<open>
  \<^verbatim>\<open>ClueWeb22DocId.from_string\<close>. The slices \<^verbatim>\<open>subdirectory[:-4]\<close>,
  \<^verbatim>\<open>subdirectory[-4:-2]\<close> and \<^verbatim>\<open>subdirectory[-2:]\<close> are written with \<open>take\<close> and
  \<open>drop\<close>; the subtraction on \<^typ>\<open>nat\<close> stops at 0 as Python's negative indices stop at
  the start of the string. Every failure is a \<^verbatim>\<open>ValueError\<close>, those of \<^verbatim>\<open>int\<close>
  included.
\<close>

definition from_string :: "string \<Rightarrow> error + ClueWeb22DocId" where
  "from_string doc_id =
     (case split_on CHR ''-'' doc_id of
        [dataset, subdirectory, file, doc_index] \<Rightarrow>
          if dataset \<noteq> ''clueweb22'' then Inl ValueError
          else
            let language = take (length subdirectory - 4) subdirectory in
            if \<not> (\<exists>supported_language \<in> set languages. language = language_id supported_language)
            then Inl ValueError
            else
              (case py_int (drop (length subdirectory - 4) (take (length subdirectory - 2) subdirectory)) of
                 Inl e \<Rightarrow> Inl e
               | Inr stream_id \<Rightarrow>
                  (case py_int (drop (length subdirectory - 2) subdirectory) of
                     Inl e \<Rightarrow> Inl e
                   | Inr subdirectory_id \<Rightarrow>
                      if subdirectory_id > MAX_SUBDIRECTORIES_PER_STREAM then Inl ValueError
                      else
                        (case py_int file of
                           Inl e \<Rightarrow> Inl e
                         | Inr file_id \<Rightarrow>
                            if file_id > MAX_FILES_PER_SUBDIRECTORY then Inl ValueError
                            else
                              (case py_int doc_index of
                                 Inl e \<Rightarrow> Inl e
                               | Inr doc \<Rightarrow>
                                  Inr \<lparr>doc_language = language, doc_stream = stream_id,
                                       doc_subdirectory = subdirectory_id, doc_file = file_id,
                                       doc_doc = doc\<rparr>))))
      | _ \<Rightarrow> Inl ValueError)"

text \<open>\<^verbatim>\<open>ClueWeb22DocId.__str__\<close>.\<close>

definition doc_id_str :: "ClueWeb22DocId \<Rightarrow> string" where
  "doc_id_str d =
     py_join ''-''
       [''clueweb22'',
        doc_language d @ format_int 2 (doc_stream d) @ format_int 2 (doc_subdirectory d),
        format_int 2 (doc_file d),
        format_int 5 (doc_doc d)]"

section \<open>Paths\<close>

text \<open>
  \<^verbatim>\<open>os.path.join\<close> of \<^verbatim>\<open>posixpath\<close>: a component that starts with \<open>/\<close> replaces
  what came before; otherwise it is appended, after a \<open>/\<close> unless the path so far is empty
  or ends with one.
\<close>

definition posix_join2 :: "string \<Rightarrow> string \<Rightarrow> string" where
  "posix_join2 a b =
     (if b \<noteq> [] \<and> hd b = CHR ''/'' then b
      else if a = [] \<or> last a = CHR ''/'' then a @ b
      else a @ ''/'' @ b)"

definition os_path_join :: "string \<Rightarrow> string list \<Rightarrow> string" where
  "os_path_join a ps = foldl posix_join2 a ps"

text \<open>\<^verbatim>\<open>ClueWeb22DocId.path\<close> and \<^verbatim>\<open>ClueWeb22FileId.path\<close>.\<close>

definition doc_id_path :: "ClueWeb22DocId \<Rightarrow> string" where
  "doc_id_path d =
     (let language_path = doc_language d;
          stream_path = language_path @ format_int 2 (doc_stream d);
          subdirectory_path = stream_path @ format_int 2 (doc_subdirectory d);
          file_path = subdirectory_path @ ''-'' @ format_int 2 (doc_file d)
      in os_path_join language_path [stream_path, subdirectory_path, file_path])"

definition file_id_path :: "ClueWeb22FileId \<Rightarrow> string" where
  "file_id_path f =
     (let language_path = file_language f;
          stream_path = language_path @ format_int 2 (file_stream f);
          subdirectory_path = stream_path @ format_int 2 (file_subdirectory f);
          file_path = subdirectory_path @ ''-'' @ format_int 2 (file_file f)
      in os_path_join language_path [stream_path, subdirectory_path, file_path])"

text \<open>
  \<^verbatim>\<open>s.replace(old, new)\<close> for a non-empty \<open>old\<close> (the one call has
  \<open>old = zh_chs/zh_chs\<close>): the occurrences are replaced from the left, without overlap.
\<close>

function str_replace :: "string \<Rightarrow> string \<Rightarrow> string \<Rightarrow> string" where
  "str_replace old new s =
     (if s = [] \<or> old = [] then s
      else if prefix old s then new @ str_replace old new (drop (length old) s)
      else hd s # str_replace old new (tl s))"
  by pat_completeness auto
termination
  by (relation "measure (\<lambda>(old, new, s). length s)") auto

declare str_replace.simps [simp del]

text \<open>\<^verbatim>\<open>_fix_path\<close>.\<close>

definition fix_path :: "string \<Rightarrow> ClueWeb22Format \<Rightarrow> string" where
  "fix_path path format_type =
     (if format_type = OUTLINK \<and> CHR ''_'' \<in> set path
      then str_replace ''zh_chs/zh_chs'' ''zh_chs/zh'' path
      else path)"

text \<open>
  The extension of a format inside an f-string: \<^verbatim>\<open>NotImplemented\<close> is formatted as its
  name.
\<close>

definition extension_str :: "ClueWeb22Format \<Rightarrow> string" where
  "extension_str format_type =
     (case extension format_type of Value e \<Rightarrow> e | NotImplemented \<Rightarrow> ''NotImplemented'')"

text \<open>
  A \<^verbatim>\<open>Path\<close> is modelled as the string it is built from. \<^verbatim>\<open>self._docs.path /
  format_type.id / f"{path}{suffix}"\<close> joins like \<^verbatim>\<open>os.path.join\<close>; the path of a shard
  file in \<^verbatim>\<open>_ClueWeb22Iterator._file_paths\<close> (from a file id) and in
  \<^verbatim>\<open>ClueWeb22Docstore._file_paths\<close> (from a document id):
\<close>

definition file_id_format_path :: "string \<Rightarrow> ClueWeb22Format \<Rightarrow> ClueWeb22FileId \<Rightarrow> string" where
  "file_id_format_path docs_path format_type file_id =
     posix_join2 (posix_join2 docs_path (format_id format_type))
       (fix_path (file_id_path file_id) format_type @ extension_str format_type)"

definition doc_id_format_path :: "string \<Rightarrow> ClueWeb22Format \<Rightarrow> ClueWeb22DocId \<Rightarrow> string" where
  "doc_id_format_path docs_path format_type doc_id =
     posix_join2 (posix_join2 docs_path (format_id format_type))
       (fix_path (doc_id_path doc_id) format_type @ extension_str format_type)"

text \<open>
  \<^verbatim>\<open>Path.name\<close>: the last component of the path, where empty components and \<open>.\<close>
  do not count; the empty string when there is none.
\<close>

definition path_name :: "string \<Rightarrow> string" where
  "path_name p =
     (case rev (filter (\<lambda>part. part \<noteq> [] \<and> part \<noteq> ''.'') (split_on CHR ''/'' p)) of
        [] \<Rightarrow> []
      | name # _ \<Rightarrow> name)"

section \<open>Offset files\<close>

text \<open>\<^verbatim>\<open>_fix_missing_line_break\<close>.\<close>

definition fix_missing_line_break :: "string list \<Rightarrow> string list" where
  "fix_missing_line_break lines =
     concat (map (\<lambda>line. if length line > 10 + 1 then [take 10 line, drop 10 line] else [line])
               lines)"

text \<open>
  The name of the offset file in \<^verbatim>\<open>_read_offsets\<close>:
  \<^verbatim>\<open>file_path.name[:-len(extension)] + offset_extension if offset_extension else ""\<close>,
  after the assertion that the name ends with the extension. With \<^verbatim>\<open>NotImplemented\<close>
  for the extension, \<^verbatim>\<open>endswith\<close> raises a \<^verbatim>\<open>TypeError\<close>.
\<close>

definition offsets_name :: "string \<Rightarrow> ClueWeb22Format \<Rightarrow> error + string" where
  "offsets_name file_path format_type =
     (case extension format_type of
        NotImplemented \<Rightarrow> Inl TypeError
      | Value ext \<Rightarrow>
          if \<not> suffix ext (path_name file_path) then Inl (AssertionError NameEndsWithExtension)
          else
            (case offset_extension format_type of
               NotImplemented \<Rightarrow> Inl TypeError
             | Value None \<Rightarrow> Inr []
             | Value (Some offset_ext) \<Rightarrow>
                 if offset_ext = [] then Inr []
                 else Inr ((if ext = [] then []
                            else take (length (path_name file_path) - length ext)
                                   (path_name file_path))
                           @ offset_ext)))"

text \<open>Whether \<^verbatim>\<open>_read_offsets\<close> passes the lines through
  \<^verbatim>\<open>_fix_missing_line_break\<close>.\<close>

definition line_break_fix_applies :: "string \<Rightarrow> ClueWeb22Format \<Rightarrow> bool" where
  "line_break_fix_applies file_path format_type =
     (offsets_name file_path format_type = Inr ''ja0009-57.warc.offset'')"

text \<open>\<^verbatim>\<open>int\<close> on every line; the first failure ends the iteration.\<close>

fun int_lines :: "string list \<Rightarrow> error + int list" where
  "int_lines [] = Inr []"
| "int_lines (line # lines) =
     (case py_int line of
        Inl e \<Rightarrow> Inl e
      | Inr offset \<Rightarrow> (case int_lines lines of Inl e \<Rightarrow> Inl e | Inr offsets \<Rightarrow> Inr (offset # offsets)))"

text \<open>
  \<^verbatim>\<open>_read_offsets\<close>. \<open>lines\<close> are the lines of the offset file, each with its line
  break, as iterating the open text file yields them. \<^verbatim>\<open>with_name\<close> raises a
  \<^verbatim>\<open>ValueError\<close> for an empty name.
\<close>

definition read_offsets :: "string \<Rightarrow> ClueWeb22Format \<Rightarrow> string list \<Rightarrow> error + int list" where
  "read_offsets file_path format_type lines =
     (case offsets_name file_path format_type of
        Inl e \<Rightarrow> Inl e
      | Inr name \<Rightarrow>
          if name = [] then Inl ValueError
          else int_lines (if name = ''ja0009-57.warc.offset''
                          then fix_missing_line_break lines else lines))"

section \<open>Document store\<close>

text \<open>\<^verbatim>\<open>itertools.groupby\<close>: the maximal runs of consecutive elements with equal key.\<close>

function groupby :: "('a \<Rightarrow> 'k) \<Rightarrow> 'a list \<Rightarrow> ('k \<times> 'a list) list" where
  "groupby key [] = []"
| "groupby key (x # xs) =
     (key x, x # takeWhile (\<lambda>y. key y = key x) xs)
       # groupby key (dropWhile (\<lambda>y. key y = key x) xs)"
  by pat_completeness auto
termination
  by (relation "measure (\<lambda>(key, xs). length xs)") (auto simp: length_dropWhile_le less_Suc_eq_le)

text \<open>
  \<^verbatim>\<open>ClueWeb22Docstore._file_paths\<close>. \<open>doc_ids\<close> is the sequence in which the set
  \<^verbatim>\<open>typed_doc_ids\<close> is iterated. \<open>language\<close> is the language filter of the dataset.
\<close>

definition docstore_file_paths ::
  "string \<Rightarrow> ClueWeb22Language option \<Rightarrow> ClueWeb22Format \<Rightarrow> ClueWeb22DocId list
   \<Rightarrow> error + (string \<times> ClueWeb22DocId list) list" where
  "docstore_file_paths docs_path language format_type doc_ids =
     (case language of
        Some l \<Rightarrow>
          if filter (\<lambda>doc_id. doc_language doc_id \<noteq> language_id l) doc_ids \<noteq> []
          then Inl ValueError
          else Inr (groupby (doc_id_format_path docs_path format_type) doc_ids)
      | None \<Rightarrow> Inr (groupby (doc_id_format_path docs_path format_type) doc_ids))"

text \<open>\<^verbatim>\<open>ClueWeb22DocId.from_string\<close> on every identifier; the first failure is raised.\<close>

fun from_strings :: "string list \<Rightarrow> error + ClueWeb22DocId list" where
  "from_strings [] = Inr []"
| "from_strings (s # ss) =
     (case from_string s of
        Inl e \<Rightarrow> Inl e
      | Inr d \<Rightarrow> (case from_strings ss of Inl e \<Rightarrow> Inl e | Inr ds \<Rightarrow> Inr (d # ds)))"

text \<open>
  \<^verbatim>\<open>get_many_iter\<close> collects the parsed identifiers in a Python set and iterates that
  set once per format. The order in which a set is iterated depends on the hashes of its
  elements (those of strings change from process to process) and is left open by the
  language. The model takes it as a parameter \<open>set_iter\<close>: the function from the sequence
  of elements put into the set to the sequence in which the set is iterated.
  \<open>set_iteration\<close> says what every Python set guarantees: each element once.

  The result is the files that the generator of \<^verbatim>\<open>ClueWeb22Docstore._file_iterator\<close>
  opens, in order, each with the document ids of its group; a file is opened once for
  every group that \<^verbatim>\<open>groupby\<close> yields.
\<close>

definition set_iteration :: "('a list \<Rightarrow> 'a list) \<Rightarrow> bool" where
  "set_iteration set_iter = (\<forall>xs. distinct (set_iter xs) \<and> set (set_iter xs) = set xs)"

definition get_many_files ::
  "(ClueWeb22DocId list \<Rightarrow> ClueWeb22DocId list) \<Rightarrow> string \<Rightarrow> ClueWeb22Language option
   \<Rightarrow> ClueWeb22Format \<Rightarrow> string list \<Rightarrow> error + (string \<times> ClueWeb22DocId list) list" where
  "get_many_files set_iter docs_path language format_type doc_ids =
     (case from_strings doc_ids of
        Inl e \<Rightarrow> Inl e
      | Inr typed_doc_ids \<Rightarrow>
          docstore_file_paths docs_path language format_type (set_iter typed_doc_ids))"

text \<open>
  The local indices that the GZIP branch of \<^verbatim>\<open>_file_iterator\<close> hands to the offset
  wrapper for one group: the set \<^verbatim>\<open>{doc_id.doc for doc_id in file_path_doc_ids}\<close>, as
  the ascending list of its members.
\<close>

definition group_indices :: "ClueWeb22DocId list \<Rightarrow> int list" where
  "group_indices file_path_doc_ids = sort (remdups (map doc_doc file_path_doc_ids))"

text \<open>
  What claim C4 says \<^verbatim>\<open>get_many\<close> does, in the claim's words (not in the source): one
  group per key, the keys in the order in which the input first shows them.
\<close>

fun group_first_seen :: "('a \<Rightarrow> 'k) \<Rightarrow> 'a list \<Rightarrow> ('k \<times> 'a list) list" where
  "group_first_seen key [] = []"
| "group_first_seen key (x # xs) =
     (key x, x # filter (\<lambda>y. key y = key x) xs)
       # group_first_seen key (filter (\<lambda>y. key y \<noteq> key x) xs)"

section \<open>Example inputs\<close>

definition example_txt :: "string \<Rightarrow> Txt" where
  "example_txt lang = \<lparr>
     txt_doc_id = ''clueweb22-de0000-00-00366'',
     txt_url = ''https://www.anisearch.de/manga/43556'',
     txt_url_hash = ''9D5A'',
     txt_language = lang,
     txt_text = ''Verrueckt nach dir''\<rparr>"

definition example_html :: Html where
  "example_html = \<lparr>
     html_doc_id = ''clueweb22-de0000-00-00366'',
     html_url = ''https://www.anisearch.de/manga/43556,verrueckt-nach-dir'',
     html_url_hash = ''B695'',
     html_language = ''de'',
     html_date = ''2022-08-01T00:00:00Z'',
     html_record_id = ''7f3c'',
     html_payload_digest = ''sha1:ABCD'',
     html_html = [60, 112, 62],
     html_vdom_nodes = [(PRIMARY, [1, 2]), (TITLE, [3])]\<rparr>"

definition example_link :: Link where
  "example_link = \<lparr>
     link_doc_id = ''clueweb22-de0000-00-00366'',
     link_url = ''https://www.anisearch.de/'',
     link_url_hash = ''0000'',
     link_anchors = [\<lparr>anchor_url = ''https://a.de/'', anchor_url_hash = ''1111'',
                      anchor_text = ''Manga'', anchor_language = ''de''\<rparr>]\<rparr>"

definition example_vdom :: Vdom where
  "example_vdom = \<lparr>vdom_vdom = [8, 1]\<rparr>"

definition example_file :: "int \<Rightarrow> ClueWeb22FileId" where
  "example_file n =
     \<lparr>file_language = ''en'', file_stream = 0, file_subdirectory = 0, file_file = n\<rparr>"

definition example_catalog :: "ClueWeb22Format \<Rightarrow> counts" where
  "example_catalog f =
     (if f = HTML then [(example_file 0, 3), (example_file 1, 4)]
      else if f = TXT then [(example_file 0, 3), (example_file 1, 4), (example_file 2, 5)]
      else [])"

text \<open>A catalog pair in which the TXT catalog lists the files of the HTML catalog in another order.\<close>

definition unsorted_catalog :: "ClueWeb22Format \<Rightarrow> counts" where
  "unsorted_catalog f =
     (if f = HTML then [(example_file 0, 3), (example_file 1, 4)]
      else if f = TXT then [(example_file 1, 4), (example_file 0, 3)]
      else [])"

text \<open>
  What claim C6 says \<^verbatim>\<open>record_counts\<close> yields, in the claim's words (not in the
  source): every pair of the diff catalog whose file id occurs in the broader catalog.
\<close>

definition record_counts_claimed :: "counts \<Rightarrow> counts \<Rightarrow> counts" where
  "record_counts_claimed diffs counts =
     filter (\<lambda>(file_id, diff_count). file_id \<in> fst ` set counts) diffs"

section \<open>Properties of the combiners\<close>

lemma combine_a_doc_fields:
  assumes "combine_a_doc txt html inlink outlink vdom = Inr d"
  shows "a_doc_id d = html_doc_id html \<and> a_url d = html_url html \<and>
         a_url_hash d = html_url_hash html \<and> a_language d = html_language html \<and>
         a_date d = html_date html \<and> a_html d = html_html html \<and>
         a_record_id d = html_record_id html \<and>
         a_payload_digest d = html_payload_digest html \<and>
         a_vdom_nodes d = html_vdom_nodes html \<and> a_text d = txt_text txt \<and>
         (inlink = None \<longrightarrow> a_inlink_anchors d = []) \<and>
         (outlink = None \<longrightarrow> a_outlink_anchors d = [])"
  using assms by (auto simp: combine_a_doc_def split: option.splits)

lemma combine_b_doc_fields:
  assumes "combine_b_doc txt html inlink outlink vdom = Inr d"
  shows "b_doc_id d = html_doc_id html \<and> b_url d = html_url html \<and>
         b_url_hash d = html_url_hash html \<and> b_language d = html_language html \<and>
         b_date d = html_date html \<and> b_html d = html_html html \<and>
         b_record_id d = html_record_id html \<and>
         b_payload_digest d = html_payload_digest html \<and>
         b_vdom_nodes d = html_vdom_nodes html \<and> b_text d = txt_text txt \<and>
         (inlink = None \<longrightarrow> b_inlink_anchors d = []) \<and>
         (outlink = None \<longrightarrow> b_outlink_anchors d = [])"
  using assms by (auto simp: combine_b_doc_def split: option.splits)

text \<open>
  The \<open>k\<close>-th document that a combiner yields is the combination of the \<open>k\<close>-th tuple:
  nothing is yielded after a failed assertion and nothing is skipped before it.
\<close>

lemma run_combiner_nth:
  "k < length (fst (run_combiner f ts)) \<Longrightarrow>
     k < length ts \<and> f (ts ! k) = Inr (fst (run_combiner f ts) ! k)"
proof (induction ts arbitrary: k)
  case Nil
  then show ?case by simp
next
  case (Cons t ts)
  show ?case
  proof (cases "f t")
    case (Inl e)
    with Cons.prems show ?thesis by simp
  next
    case (Inr d)
    obtain ds e where r: "run_combiner f ts = (ds, e)" by (cases "run_combiner f ts")
    show ?thesis
    proof (cases k)
      case 0
      with Inr r show ?thesis by simp
    next
      case (Suc j)
      with Cons.prems Inr r have "j < length (fst (run_combiner f ts))" by simp
      from Cons.IH[OF this] Suc Inr r show ?thesis by simp
    qed
  qed
qed

lemma zipped_nth:
  assumes "k < length (zipped txts htmls inlinks outlinks vdoms)"
  shows "zipped txts htmls inlinks outlinks vdoms ! k =
           (txts ! k, htmls ! k, inlinks ! k, outlinks ! k, vdoms ! k)"
  using assms by (simp add: zipped_def)

text \<open>
  Claim C7. Every document that \<^verbatim>\<open>_combine_a_docs\<close> or \<^verbatim>\<open>_combine_b_docs\<close> yields
  takes \<open>doc_id\<close>, \<open>url\<close>, \<open>url_hash\<close>, \<open>language\<close>, \<open>date\<close>, \<open>html\<close>, \<open>record_id\<close>,
  \<open>payload_digest\<close> and \<open>vdom_nodes\<close> from the HTML record of its tuple and \<open>text\<close> from
  the TXT record; where the INLINK (OUTLINK) record of the tuple is \<open>None\<close>, the list of
  inlink (outlink) anchors is empty.
\<close>

theorem combined_fields_from_html_and_txt:
  "(\<forall>k < length (fst (combine_a_docs txts htmls inlinks outlinks vdoms)).
      (let d = fst (combine_a_docs txts htmls inlinks outlinks vdoms) ! k; html = htmls ! k in
         a_doc_id d = html_doc_id html \<and> a_url d = html_url html \<and>
         a_url_hash d = html_url_hash html \<and> a_language d = html_language html \<and>
         a_date d = html_date html \<and> a_html d = html_html html \<and>
         a_record_id d = html_record_id html \<and>
         a_payload_digest d = html_payload_digest html \<and>
         a_vdom_nodes d = html_vdom_nodes html \<and> a_text d = txt_text (txts ! k) \<and>
         (inlinks ! k = None \<longrightarrow> a_inlink_anchors d = []) \<and>
         (outlinks ! k = None \<longrightarrow> a_outlink_anchors d = [])))
   \<and> (\<forall>k < length (fst (combine_b_docs txts htmls inlinks outlinks vdoms)).
      (let d = fst (combine_b_docs txts htmls inlinks outlinks vdoms) ! k; html = htmls ! k in
         b_doc_id d = html_doc_id html \<and> b_url d = html_url html \<and>
         b_url_hash d = html_url_hash html \<and> b_language d = html_language html \<and>
         b_date d = html_date html \<and> b_html d = html_html html \<and>
         b_record_id d = html_record_id html \<and>
         b_payload_digest d = html_payload_digest html \<and>
         b_vdom_nodes d = html_vdom_nodes html \<and> b_text d = txt_text (txts ! k) \<and>
         (inlinks ! k = None \<longrightarrow> b_inlink_anchors d = []) \<and>
         (outlinks ! k = None \<longrightarrow> b_outlink_anchors d = [])))"
proof (intro conjI allI impI)
  fix k
  assume k: "k < length (fst (combine_a_docs txts htmls inlinks outlinks vdoms))"
  let ?ts = "zipped txts htmls inlinks outlinks vdoms"
  let ?f = "\<lambda>(txt, html, inlink, outlink, vdom). combine_a_doc txt html inlink outlink vdom"
  from k have "k < length (fst (run_combiner ?f ?ts))" by (simp add: combine_a_docs_def)
  from run_combiner_nth[OF this]
  have len: "k < length ?ts" and r: "?f (?ts ! k) = Inr (fst (run_combiner ?f ?ts) ! k)"
    by simp_all
  from r zipped_nth[OF len]
  have "combine_a_doc (txts ! k) (htmls ! k) (inlinks ! k) (outlinks ! k) (vdoms ! k) =
          Inr (fst (combine_a_docs txts htmls inlinks outlinks vdoms) ! k)"
    by (simp add: combine_a_docs_def)
  from combine_a_doc_fields[OF this]
  show "let d = fst (combine_a_docs txts htmls inlinks outlinks vdoms) ! k; html = htmls ! k in
         a_doc_id d = html_doc_id html \<and> a_url d = html_url html \<and>
         a_url_hash d = html_url_hash html \<and> a_language d = html_language html \<and>
         a_date d = html_date html \<and> a_html d = html_html html \<and>
         a_record_id d = html_record_id html \<and>
         a_payload_digest d = html_payload_digest html \<and>
         a_vdom_nodes d = html_vdom_nodes html \<and> a_text d = txt_text (txts ! k) \<and>
         (inlinks ! k = None \<longrightarrow> a_inlink_anchors d = []) \<and>
         (outlinks ! k = None \<longrightarrow> a_outlink_anchors d = [])"
    by (simp add: Let_def)
next
  fix k
  assume k: "k < length (fst (combine_b_docs txts htmls inlinks outlinks vdoms))"
  let ?ts = "zipped txts htmls inlinks outlinks vdoms"
  let ?f = "\<lambda>(txt, html, inlink, outlink, vdom). combine_b_doc txt html inlink outlink vdom"
  from k have "k < length (fst (run_combiner ?f ?ts))" by (simp add: combine_b_docs_def)
  from run_combiner_nth[OF this]
  have len: "k < length ?ts" and r: "?f (?ts ! k) = Inr (fst (run_combiner ?f ?ts) ! k)"
    by simp_all
  from r zipped_nth[OF len]
  have "combine_b_doc (txts ! k) (htmls ! k) (inlinks ! k) (outlinks ! k) (vdoms ! k) =
          Inr (fst (combine_b_docs txts htmls inlinks outlinks vdoms) ! k)"
    by (simp add: combine_b_docs_def)
  from combine_b_doc_fields[OF this]
  show "let d = fst (combine_b_docs txts htmls inlinks outlinks vdoms) ! k; html = htmls ! k in
         b_doc_id d = html_doc_id html \<and> b_url d = html_url html \<and>
         b_url_hash d = html_url_hash html \<and> b_language d = html_language html \<and>
         b_date d = html_date html \<and> b_html d = html_html html \<and>
         b_record_id d = html_record_id html \<and>
         b_payload_digest d = html_payload_digest html \<and>
         b_vdom_nodes d = html_vdom_nodes html \<and> b_text d = txt_text (txts ! k) \<and>
         (inlinks ! k = None \<longrightarrow> b_inlink_anchors d = []) \<and>
         (outlinks ! k = None \<longrightarrow> b_outlink_anchors d = [])"
    by (simp add: Let_def)
qed

text \<open>The theorem at two tuples; the second has no INLINK record, the first no OUTLINK record.\<close>

lemma example_a_docs_length:
  "length (fst (combine_a_docs [example_txt ''de'', example_txt ''other''] [example_html, example_html]
      [Some example_link, None] [None, Some example_link] [example_vdom, example_vdom])) = 2"
  by (simp add: combine_a_docs_def zipped_def combine_a_doc_def combine_checks_def
      url_assertion_def example_txt_def example_html_def example_link_def)

lemma example_b_docs_length:
  "length (fst (combine_b_docs [example_txt ''de'', example_txt ''other''] [example_html, example_html]
      [Some example_link, None] [None, Some example_link] [example_vdom, example_vdom])) = 2"
  by (simp add: combine_b_docs_def zipped_def combine_b_doc_def combine_checks_def
      url_assertion_def example_txt_def example_html_def example_link_def)

theorem combined_fields_from_html_and_txt_witness:
  "length (fst (combine_a_docs [example_txt ''de'', example_txt ''other''] [example_html, example_html]
      [Some example_link, None] [None, Some example_link] [example_vdom, example_vdom])) = 2
   \<and> a_url (fst (combine_a_docs [example_txt ''de'', example_txt ''other''] [example_html, example_html]
      [Some example_link, None] [None, Some example_link] [example_vdom, example_vdom]) ! 1)
       = ''https://www.anisearch.de/manga/43556,verrueckt-nach-dir''
   \<and> a_text (fst (combine_a_docs [example_txt ''de'', example_txt ''other''] [example_html, example_html]
      [Some example_link, None] [None, Some example_link] [example_vdom, example_vdom]) ! 1)
       = ''Verrueckt nach dir''
   \<and> a_inlink_anchors (fst (combine_a_docs [example_txt ''de'', example_txt ''other''] [example_html, example_html]
      [Some example_link, None] [None, Some example_link] [example_vdom, example_vdom]) ! 1) = []
   \<and> b_language (fst (combine_b_docs [example_txt ''de'', example_txt ''other''] [example_html, example_html]
      [Some example_link, None] [None, Some example_link] [example_vdom, example_vdom]) ! 0) = ''de''
   \<and> b_outlink_anchors (fst (combine_b_docs [example_txt ''de'', example_txt ''other''] [example_html, example_html]
      [Some example_link, None] [None, Some example_link] [example_vdom, example_vdom]) ! 0) = []"
proof -
  let ?T = "[example_txt ''de'', example_txt ''other'']"
  let ?H = "[example_html, example_html]"
  let ?I = "[Some example_link, None]"
  let ?O = "[None, Some example_link]"
  let ?V = "[example_vdom, example_vdom]"
  note th = combined_fields_from_html_and_txt[of ?T ?H ?I ?O ?V]
  from th have a: "\<forall>k<2. (let d = fst (combine_a_docs ?T ?H ?I ?O ?V) ! k; html = ?H ! k in
         a_url d = html_url html \<and> a_text d = txt_text (?T ! k) \<and>
         (?I ! k = None \<longrightarrow> a_inlink_anchors d = []))"
    unfolding example_a_docs_length Let_def by blast
  from th have b: "\<forall>k<2. (let d = fst (combine_b_docs ?T ?H ?I ?O ?V) ! k; html = ?H ! k in
         b_language d = html_language html \<and>
         (?O ! k = None \<longrightarrow> b_outlink_anchors d = []))"
    unfolding example_b_docs_length Let_def by blast
  from a have "a_url (fst (combine_a_docs ?T ?H ?I ?O ?V) ! 1) = html_url example_html
     \<and> a_text (fst (combine_a_docs ?T ?H ?I ?O ?V) ! 1) = txt_text (example_txt ''other'')
     \<and> a_inlink_anchors (fst (combine_a_docs ?T ?H ?I ?O ?V) ! 1) = []"
    by (simp add: Let_def)
  moreover from b have "b_language (fst (combine_b_docs ?T ?H ?I ?O ?V) ! 0) = html_language example_html
     \<and> b_outlink_anchors (fst (combine_b_docs ?T ?H ?I ?O ?V) ! 0) = []"
    by (simp add: Let_def)
  ultimately show ?thesis
    using example_a_docs_length by (simp add: example_html_def example_txt_def)
qed

text \<open>
  Claim C8. The language assertion of \<^verbatim>\<open>_combine_a_docs\<close> and of
  \<^verbatim>\<open>_combine_b_docs\<close> is the one that fails exactly when it is reached (the doc ids
  agree and the URL check passes) and the TXT language is neither the HTML language nor the
  string \<open>other\<close>; with TXT language \<open>other\<close> it never fails, whatever the HTML
  language.
\<close>

theorem language_check_fails_iff:
  "(combine_a_doc txt html inlink outlink vdom = Inl (AssertionError LanguageCheck)
      \<longleftrightarrow> txt_doc_id txt = html_doc_id html
          \<and> (txt_url txt = html_url html \<or> url_assertion txt html)
          \<and> txt_language txt \<noteq> html_language html \<and> txt_language txt \<noteq> ''other'')
   \<and> (combine_b_doc txt html inlink outlink vdom = Inl (AssertionError LanguageCheck)
      \<longleftrightarrow> txt_doc_id txt = html_doc_id html
          \<and> (txt_url txt = html_url html \<or> url_assertion txt html)
          \<and> txt_language txt \<noteq> html_language html \<and> txt_language txt \<noteq> ''other'')
   \<and> (txt_language txt = ''other'' \<longrightarrow>
        combine_a_doc txt html inlink outlink vdom \<noteq> Inl (AssertionError LanguageCheck)
        \<and> combine_b_doc txt html inlink outlink vdom \<noteq> Inl (AssertionError LanguageCheck))"
  by (auto simp: combine_a_doc_def combine_b_doc_def combine_checks_def split: option.splits if_splits)

theorem language_check_fails_iff_witness:
  "combine_a_doc (example_txt ''en'') example_html None None example_vdom
     = Inl (AssertionError LanguageCheck)
   \<and> combine_b_doc (example_txt ''en'') example_html None None example_vdom
     = Inl (AssertionError LanguageCheck)
   \<and> txt_language (example_txt ''other'') = ''other''
   \<and> combine_a_doc (example_txt ''other'') example_html None None example_vdom
       \<noteq> Inl (AssertionError LanguageCheck)
   \<and> combine_b_doc (example_txt ''other'') example_html None None example_vdom
       \<noteq> Inl (AssertionError LanguageCheck)"
proof -
  have pre: "txt_doc_id (example_txt ''en'') = html_doc_id example_html
     \<and> (txt_url (example_txt ''en'') = html_url example_html \<or> url_assertion (example_txt ''en'') example_html)
     \<and> txt_language (example_txt ''en'') \<noteq> html_language example_html
     \<and> txt_language (example_txt ''en'') \<noteq> ''other''"
    by (simp add: example_txt_def example_html_def url_assertion_def)
  have other: "txt_language (example_txt ''other'') = ''other''"
    by (simp add: example_txt_def)
  from language_check_fails_iff[of "example_txt ''en''" example_html None None example_vdom] pre
  have "combine_a_doc (example_txt ''en'') example_html None None example_vdom
     = Inl (AssertionError LanguageCheck)
   \<and> combine_b_doc (example_txt ''en'') example_html None None example_vdom
     = Inl (AssertionError LanguageCheck)" by blast
  moreover from language_check_fails_iff[of "example_txt ''other''" example_html None None example_vdom] other
  have "combine_a_doc (example_txt ''other'') example_html None None example_vdom
       \<noteq> Inl (AssertionError LanguageCheck)
   \<and> combine_b_doc (example_txt ''other'') example_html None None example_vdom
       \<noteq> Inl (AssertionError LanguageCheck)" by blast
  ultimately show ?thesis using other by blast
qed

section \<open>Properties of the record counts\<close>

lemma subset_views_L: "subset_views L = {L}"
  by (simp add: subset_views.simps)

lemma subset_views_A: "subset_views A = {A, L}"
  by (auto simp: subset_views.simps[of A] subset_views_L subsets_def)

lemma subset_views_B: "subset_views B = {B, A, L}"
  by (auto simp: subset_views.simps[of B] subset_views_A subsets_def)

lemma diff_formats_L: "diff_formats L = {TXT}"
  by (simp add: diff_formats_def subset_views_L)

lemma diff_formats_A: "diff_formats A = {HTML, INLINK, OUTLINK, VDOM}"
  by (auto simp: diff_formats_def subset_views_A)

lemma diff_formats_B: "diff_formats B = {}"
  by (auto simp: diff_formats_def subset_views_B)

lemma set_next_first_format: "set_next first_format"
proof -
  have "first_format S = None" if "S = {}" for S
    using that by (simp add: first_format_def)
  moreover have "\<exists>x \<in> S. first_format S = Some x" if "S \<noteq> {}" for S
  proof -
    from that obtain f where "f \<in> S" by blast
    then show ?thesis
      by (cases f) (auto simp: first_format_def)
  qed
  ultimately show ?thesis by (simp add: set_next_def)
qed

text \<open>
  Claim C5. \<^verbatim>\<open>docs_count\<close> is the sum of the counts of one catalog: that of a
  diff format of the subset (whichever the set iteration yields first), or, when the subset
  has no diff format, that of HTML; subset B has no diff format, so its count is the sum of
  the HTML counts.
\<close>

theorem docs_count_diff_format:
  assumes "set_next next_iter"
  shows "(\<exists>f. (f \<in> diff_formats s \<or> diff_formats s = {} \<and> f = HTML)
              \<and> docs_count next_iter catalog s = sum_list (map snd (catalog f)))
         \<and> diff_formats B = {}
         \<and> docs_count next_iter catalog B = sum_list (map snd (catalog HTML))"
proof -
  have a: "\<exists>f. (f \<in> diff_formats s \<or> diff_formats s = {} \<and> f = HTML)
              \<and> docs_count next_iter catalog s = sum_list (map snd (catalog f))" for s
  proof (cases "diff_formats s = {}")
    case True
    with assms have "next_iter (diff_formats s) = None" by (simp add: set_next_def)
    with True show ?thesis by (simp add: docs_count_def diff_format_record_counts_def)
  next
    case False
    with assms obtain f where "f \<in> diff_formats s" "next_iter (diff_formats s) = Some f"
      unfolding set_next_def by blast
    then show ?thesis by (auto simp: docs_count_def diff_format_record_counts_def)
  qed
  from a[of B] have "docs_count next_iter catalog B = sum_list (map snd (catalog HTML))"
    by (simp add: diff_formats_B)
  with a[of s] diff_formats_B show ?thesis by blast
qed

theorem docs_count_diff_format_witness:
  "set_next first_format
   \<and> (\<exists>f. (f \<in> diff_formats A \<or> diff_formats A = {} \<and> f = HTML)
              \<and> docs_count first_format example_catalog A = sum_list (map snd (example_catalog f)))
   \<and> docs_count first_format example_catalog B = 7"
  using docs_count_diff_format[OF set_next_first_format, of A example_catalog]
  by (simp add: set_next_first_format example_catalog_def)

lemma record_counts_loop_Nil: "record_counts_loop diffs [] = []"
  by (induction diffs) auto

lemma record_counts_loop_miss:
  assumes "dropWhile (\<lambda>(file_id, count). file_id \<noteq> diff_file_id) counts = []"
  shows "record_counts_loop ((diff_file_id, diff_count) # diffs) counts = []"
  using assms by (simp del: dropWhile_eq_Nil_conv add: record_counts_loop_Nil)

lemma record_counts_loop_hit:
  assumes "dropWhile (\<lambda>(file_id, count). file_id \<noteq> diff_file_id) counts = (f, c) # rest"
  shows "f = diff_file_id \<and> record_counts_loop ((diff_file_id, diff_count) # diffs) counts
           = (diff_file_id, diff_count) # record_counts_loop diffs rest"
proof -
  have "\<not> (case hd (dropWhile (\<lambda>(file_id, count). file_id \<noteq> diff_file_id) counts) of
             (file_id, count) \<Rightarrow> file_id \<noteq> diff_file_id)"
    using assms hd_dropWhile[of "\<lambda>(file_id, count). file_id \<noteq> diff_file_id" counts] by auto
  with assms have "f = diff_file_id" by simp
  with assms show ?thesis by simp
qed

lemma record_counts_loop_prefix: "prefix (record_counts_loop diffs counts) diffs"
proof (induction diffs counts rule: record_counts_loop.induct)
  case (1 counts)
  then show ?case by simp
next
  case (2 diff_file_id diff_count diffs counts)
  show ?case
  proof (cases "dropWhile (\<lambda>(file_id, count). file_id \<noteq> diff_file_id) counts")
    case Nil
    then show ?thesis by (simp only: record_counts_loop_miss Nil_prefix)
  next
    case (Cons a rest)
    obtain file_id count where a: "a = (file_id, count)" by (cases a)
    from record_counts_loop_hit[OF Cons[unfolded a]] 2(2)[OF Cons[unfolded a] refl]
    show ?thesis by simp
  qed
qed

lemma record_counts_loop_in_counts:
  "fst ` set (record_counts_loop diffs counts) \<subseteq> fst ` set counts"
proof (induction diffs counts rule: record_counts_loop.induct)
  case (1 counts)
  then show ?case by simp
next
  case (2 diff_file_id diff_count diffs counts)
  show ?case
  proof (cases "dropWhile (\<lambda>(file_id, count). file_id \<noteq> diff_file_id) counts")
    case Nil
    then show ?thesis by (simp only: record_counts_loop_miss) simp
  next
    case (Cons a rest)
    obtain file_id count where a: "a = (file_id, count)" by (cases a)
    have "set (dropWhile (\<lambda>(file_id, count). file_id \<noteq> diff_file_id) counts) \<subseteq> set counts"
      by (rule set_dropWhileD[THEN subsetI]) 
    with Cons a have sub: "(file_id, count) \<in> set counts" "set rest \<subseteq> set counts" by auto
    from record_counts_loop_hit[OF Cons[unfolded a]]
    have eq: "file_id = diff_file_id"
      "record_counts_loop ((diff_file_id, diff_count) # diffs) counts
           = (diff_file_id, diff_count) # record_counts_loop diffs rest" by simp_all
    from 2(2)[OF Cons[unfolded a] refl] sub(2)
    have "fst ` set (record_counts_loop diffs rest) \<subseteq> fst ` set counts" by blast
    moreover from sub(1) eq(1) have "diff_file_id \<in> fst ` set counts" by force
    ultimately show ?thesis unfolding eq(2) by simp
  qed
qed

lemma dropWhile_subseq_hit:
  assumes "subseq (d # ds) (map fst counts)"
  shows "\<exists>rest c. dropWhile (\<lambda>(file_id, count). file_id \<noteq> d) counts = (d, c) # rest
           \<and> subseq ds (map fst rest)"
  using assms
proof (induction counts)
  case Nil
  then show ?case by simp
next
  case (Cons a counts)
  obtain f c where a: "a = (f, c)" by (cases a)
  show ?case
  proof (cases "f = d")
    case True
    with Cons.prems a show ?thesis by simp
  next
    case False
    with Cons.prems a have "subseq (d # ds) (map fst counts)" by simp
    from Cons.IH[OF this] False a show ?thesis by simp
  qed
qed

lemma record_counts_loop_subseq:
  "subseq (map fst diffs) (map fst counts) \<Longrightarrow> record_counts_loop diffs counts = diffs"
proof (induction diffs counts rule: record_counts_loop.induct)
  case (1 counts)
  then show ?case by simp
next
  case (2 diff_file_id diff_count diffs counts)
  from 2(3) have "subseq (diff_file_id # map fst diffs) (map fst counts)" by simp
  from dropWhile_subseq_hit[OF this]
  obtain rest c where d: "dropWhile (\<lambda>(file_id, count). file_id \<noteq> diff_file_id) counts
       = (diff_file_id, c) # rest"
    and s: "subseq (map fst diffs) (map fst rest)" by blast
  from 2(2)[OF d refl s] record_counts_loop_hit[OF d] show ?case by simp
qed

text \<open>
  Claim C6, amended. \<^verbatim>\<open>record_counts\<close> is a single-pass join of two catalogs that
  are both in ascending order of file id. For arbitrary catalogs it yields a prefix of the
  diff catalog (pairs \<open>(file id, diff count)\<close>, in order), every file id it yields occurs
  in the catalog of the format, and nothing is yielded for a file id that only that catalog
  has. When the file ids of the diff catalog occur in the catalog of the format in the same
  order (a subsequence), it yields the whole diff catalog.
\<close>

theorem record_counts_sorted_join:
  "prefix (record_counts next_iter catalog s format_type)
          (diff_format_record_counts next_iter catalog s)
   \<and> fst ` set (record_counts next_iter catalog s format_type) \<subseteq> fst ` set (catalog format_type)
   \<and> (subseq (map fst (diff_format_record_counts next_iter catalog s))
              (map fst (catalog format_type))
        \<longrightarrow> record_counts next_iter catalog s format_type
              = diff_format_record_counts next_iter catalog s)"
  unfolding record_counts_def
  using record_counts_loop_prefix record_counts_loop_in_counts record_counts_loop_subseq
  by blast

lemma example_diff_counts:
  "diff_format_record_counts first_format example_catalog A
     = [(example_file 0, 3), (example_file 1, 4)]"
  by (simp add: diff_format_record_counts_def diff_formats_A first_format_def example_catalog_def)

theorem record_counts_sorted_join_witness:
  "subseq (map fst (diff_format_record_counts first_format example_catalog A))
          (map fst (example_catalog TXT))
   \<and> record_counts first_format example_catalog A TXT = [(example_file 0, 3), (example_file 1, 4)]"
proof -
  have sub: "subseq (map fst (diff_format_record_counts first_format example_catalog A))
          (map fst (example_catalog TXT))"
    by (simp add: example_diff_counts example_catalog_def)
  with record_counts_sorted_join[of first_format example_catalog A TXT]
  have "record_counts first_format example_catalog A TXT
              = diff_format_record_counts first_format example_catalog A" by blast
  with sub show ?thesis by (simp add: example_diff_counts)
qed

text \<open>
  The claim as stated fails where the catalog of the format is in another order: the inner
  loop has consumed the entry of file 1 while looking for file 0, so file 1 is dropped.
\<close>

theorem record_counts_arbitrary_catalogs_counterexample:
  "record_counts first_format unsorted_catalog A TXT = [(example_file 0, 3)]
   \<and> record_counts_claimed (diff_format_record_counts first_format unsorted_catalog A)
        (unsorted_catalog TXT) = [(example_file 0, 3), (example_file 1, 4)]
   \<and> record_counts first_format unsorted_catalog A TXT
       \<noteq> record_counts_claimed (diff_format_record_counts first_format unsorted_catalog A)
            (unsorted_catalog TXT)"
  by (simp add: record_counts_def record_counts_claimed_def diff_format_record_counts_def
      diff_formats_A first_format_def unsorted_catalog_def example_file_def)

end
